theory Spec2Isabelle
  imports Complex_Main
begin

section \<open>Python strings\<close>

text \<open>
  A Python \<open>str\<close> is modelled as a \<open>string\<close>. The texts of the program are ASCII apart
  from three symbols of the canned report lines, which are written as their UTF-8 bytes.
  \<open>str.lower\<close> maps \<open>A\<close>..\<open>Z\<close> to \<open>a\<close>..\<open>z\<close> and leaves every other character of
  the model alone.
\<close>

definition lower_char :: "char \<Rightarrow> char" where
  "lower_char c =
     (case map_of (zip ''ABCDEFGHIJKLMNOPQRSTUVWXYZ'' ''abcdefghijklmnopqrstuvwxyz'') c of
        Some l \<Rightarrow> l
      | None \<Rightarrow> c)"

definition lower :: "string \<Rightarrow> string" where
  "lower s = map lower_char s"

text \<open>\<open>text.startswith(word)\<close>, used to scan for a substring.\<close>

fun startswith :: "string \<Rightarrow> string \<Rightarrow> bool" where
  "startswith [] t = True"
| "startswith (w # ws) [] = False"
| "startswith (w # ws) (c # cs) = (w = c \<and> startswith ws cs)"

text \<open>Python's \<open>word in text\<close> on two strings: \<open>word\<close> occurs in \<open>text\<close> as a substring.\<close>

fun py_in :: "string \<Rightarrow> string \<Rightarrow> bool" where
  "py_in w [] = (w = [])"
| "py_in w (c # cs) = (startswith w (c # cs) \<or> py_in w cs)"

text \<open>\<open>any(word in text for word in words)\<close>.\<close>

fun any_in :: "string list \<Rightarrow> string \<Rightarrow> bool" where
  "any_in [] t = False"
| "any_in (w # ws) t = (py_in w t \<or> any_in ws t)"

text \<open>\<open>str.isspace\<close> on one character and \<open>str.strip()\<close>.\<close>

definition isspace :: "char \<Rightarrow> bool" where
  "isspace c \<longleftrightarrow>
     c \<in> {CHR 0x09, CHR 0x0A, CHR 0x0B, CHR 0x0C, CHR 0x0D,
          CHR 0x1C, CHR 0x1D, CHR 0x1E, CHR 0x1F, CHR 0x20}"

definition strip :: "string \<Rightarrow> string" where
  "strip s = rev (dropWhile isspace (rev (dropWhile isspace s)))"

section \<open>Sentiment of a text (vocal and linguistic analysis)\<close>

text \<open>
  \<open>analyze_sentiment(text)\<close>. The TextBlob library is a parameter: \<open>textblob text\<close> is
  \<open>Some (polarity, subjectivity)\<close>, or \<open>None\<close> when the library raises. A polarity is
  a Python float; it is only ever compared with the literals \<open>-0.3\<close> and \<open>0.3\<close>, and
  no double lies between a literal's double and the decimal it is written as, so the
  comparisons are those of the reals.
\<close>

definition analyze_sentiment :: "(string \<Rightarrow> (real \<times> real) option) \<Rightarrow> string \<Rightarrow> real \<times> real" where
  "analyze_sentiment textblob text =
     (if strip text = [] then (0.2, 0.2)
      else case textblob text of
             Some (polarity, subjectivity) \<Rightarrow> (polarity, subjectivity)
           | None \<Rightarrow> (0.0, 0.0))"

section \<open>Scoring one spoken response\<close>

text \<open>
  The body of the loop of \<open>process_voice_assessment_submission\<close> that turns the text of one
  response into its PHQ-9 item score.
\<close>

definition scoreResponse :: "(string \<Rightarrow> (real \<times> real) option) \<Rightarrow> string \<Rightarrow> int" where
  "scoreResponse textblob response =
     (let response_text = lower response in
      if any_in [''never'', ''not at all'', ''rarely'', ''no'', ''none''] response_text then 0
      else if any_in [''sometimes'', ''occasionally'', ''a few'', ''once''] response_text then 1
      else if any_in [''often'', ''frequently'', ''many'', ''several''] response_text then 2
      else if any_in [''always'', ''every day'', ''constantly'', ''all the time'', ''daily'']
                response_text then 3
      else (let polarity = fst (analyze_sentiment textblob response_text) in
            if polarity < - 0.3 then 2
            else if polarity > 0.3 then 0
            else 1))"

text \<open>A sentiment library that finds every text neutral: polarity 0.0, subjectivity 0.0.\<close>

definition textblob_neutral :: "string \<Rightarrow> (real \<times> real) option" where
  "textblob_neutral text = Some (0.0, 0.0)"

section \<open>Severity band\<close>

text \<open>The first lines of \<open>generate_recommendations\<close>: the band of a PHQ-9 total.\<close>

definition classify :: "int \<Rightarrow> string" where
  "classify phq9_score =
     (if phq9_score \<le> 4 then ''None-Minimal''
      else if phq9_score \<le> 9 then ''Mild''
      else if phq9_score \<le> 14 then ''Moderate''
      else if phq9_score \<le> 19 then ''Moderately Severe''
      else ''Severe'')"

section \<open>The keyword buckets as the specification words them\<close>

text \<open>
  The specification describes the scoring as a case-insensitive substring match against four
  ordered keyword buckets. These definitions follow its words; the theorems below compare
  them with \<open>scoreResponse\<close>, which follows the source.
\<close>

definition is_substring :: "string \<Rightarrow> string \<Rightarrow> bool" where
  "is_substring w t = (\<exists>ps ss. t = ps @ w @ ss)"

definition bucket0 :: "string list" where
  "bucket0 = [''never'', ''not at all'', ''rarely'', ''no'', ''none'']"

definition bucket1 :: "string list" where
  "bucket1 = [''sometimes'', ''occasionally'', ''a few'', ''once'']"

definition bucket2 :: "string list" where
  "bucket2 = [''often'', ''frequently'', ''many'', ''several'']"

definition bucket3 :: "string list" where
  "bucket3 = [''always'', ''every day'', ''constantly'', ''all the time'', ''daily'']"

definition bucket_matches :: "string list \<Rightarrow> string \<Rightarrow> bool" where
  "bucket_matches bucket text = (\<exists>w \<in> set bucket. is_substring (lower w) (lower text))"

section \<open>Python floats\<close>

text \<open>
  A Python float is a finite double, an infinity or NaN. The program compares the HRV
  metrics only with the integer literals 15, 25, 40, 80 and 90, which are doubles
  themselves, so a comparison of a finite double is the comparison of the reals; every
  comparison with NaN is false.
\<close>

datatype pyfloat = Finite real | PosInf | NegInf | NaN

fun fgt :: "pyfloat \<Rightarrow> real \<Rightarrow> bool" where
  "fgt (Finite x) t = (x > t)"
| "fgt PosInf t = True"
| "fgt NegInf t = False"
| "fgt NaN t = False"

fun flt :: "pyfloat \<Rightarrow> real \<Rightarrow> bool" where
  "flt (Finite x) t = (x < t)"
| "flt PosInf t = False"
| "flt NegInf t = True"
| "flt NaN t = False"

section \<open>Cardiovascular stress\<close>

text \<open>The dictionary that \<open>calculate_hrv_metrics\<close> returns.\<close>

record hrv_metrics =
  sdnn :: pyfloat
  rmssd :: pyfloat
  pnn50 :: pyfloat
  mean_hr :: pyfloat
  max_hr :: pyfloat
  min_hr :: pyfloat
  hr_range :: pyfloat

text \<open>The dictionary that \<open>analyze_cardiovascular_stress\<close> returns.\<close>

record stress_result =
  metrics :: hrv_metrics
  stress_score :: int
  stress_level :: string
  stress_indicators :: "string list"
  data_points :: nat

text \<open>
  The second half of \<open>analyze_cardiovascular_stress\<close>, from \<open>stress_score = 0\<close> to the
  returned dictionary. \<open>format_1f\<close> stands for the \<open>:.1f\<close> formatting of a float.
\<close>

definition classify_stress :: "(pyfloat \<Rightarrow> string) \<Rightarrow> hrv_metrics \<Rightarrow> nat \<Rightarrow> stress_result" where
  "classify_stress format_1f m n =
     (let stress_score = (0::int);
          stress_indicators = ([]::string list);
          (stress_score, stress_indicators) =
            (if fgt (mean_hr m) 90
             then (stress_score + 3,
                   stress_indicators @ [''Elevated mean HR ('' @ format_1f (mean_hr m) @ '' BPM)''])
             else if fgt (mean_hr m) 80 then (stress_score + 2, stress_indicators)
             else (stress_score, stress_indicators));
          (stress_score, stress_indicators) =
            (if flt (rmssd m) 15
             then (stress_score + 3,
                   stress_indicators @ [''Very low HRV (RMSSD: '' @ format_1f (rmssd m) @ '' ms)''])
             else if flt (rmssd m) 25 then (stress_score + 2, stress_indicators)
             else (stress_score, stress_indicators));
          (stress_score, stress_indicators) =
            (if flt (sdnn m) 40
             then (stress_score + 2,
                   stress_indicators @ [''Low SDNN ('' @ format_1f (sdnn m) @ '' ms)''])
             else (stress_score, stress_indicators));
          stress_level =
            (if stress_score \<ge> 7 then ''High''
             else if stress_score \<ge> 4 then ''Moderate''
             else ''Low'')
      in \<lparr>metrics = m, stress_score = stress_score, stress_level = stress_level,
          stress_indicators = stress_indicators, data_points = n\<rparr>)"

text \<open>The three signals as the specification words them: points and indicator of each.\<close>

definition hr_signal :: "(pyfloat \<Rightarrow> string) \<Rightarrow> hrv_metrics \<Rightarrow> int \<times> string list" where
  "hr_signal format_1f m =
     (if fgt (mean_hr m) 90 then (3, [''Elevated mean HR ('' @ format_1f (mean_hr m) @ '' BPM)''])
      else if fgt (mean_hr m) 80 then (2, [])
      else (0, []))"

definition rmssd_signal :: "(pyfloat \<Rightarrow> string) \<Rightarrow> hrv_metrics \<Rightarrow> int \<times> string list" where
  "rmssd_signal format_1f m =
     (if flt (rmssd m) 15 then (3, [''Very low HRV (RMSSD: '' @ format_1f (rmssd m) @ '' ms)''])
      else if flt (rmssd m) 25 then (2, [])
      else (0, []))"

definition sdnn_signal :: "(pyfloat \<Rightarrow> string) \<Rightarrow> hrv_metrics \<Rightarrow> int \<times> string list" where
  "sdnn_signal format_1f m =
     (if flt (sdnn m) 40 then (2, [''Low SDNN ('' @ format_1f (sdnn m) @ '' ms)''])
      else (0, []))"

definition level_of :: "int \<Rightarrow> string" where
  "level_of score = (if score \<ge> 7 then ''High'' else if score \<ge> 4 then ''Moderate'' else ''Low'')"

text \<open>A formatting of floats for the examples, and the metrics of the example.\<close>

definition format_plain :: "pyfloat \<Rightarrow> string" where
  "format_plain x = ''?''"

definition example_metrics :: hrv_metrics where
  "example_metrics = \<lparr>sdnn = Finite 30, rmssd = Finite 10, pnn50 = Finite 0,
     mean_hr = Finite 95, max_hr = Finite 100, min_hr = Finite 90, hr_range = Finite 10\<rparr>"

section \<open>Keyword counts of a transcript\<close>

text \<open>
  The keyword detection of \<open>handle_analyze_text\<close>: the two word lists as the source
  writes them, and \<open>sum(1 for word in words if word in text_lower)\<close> for each.
\<close>

definition positive_words :: "string list" where
  "positive_words = [''good'', ''happy'', ''better'', ''enjoy'', ''love'', ''great'',
     ''excellent'', ''wonderful'', ''positive'', ''excited'', ''glad'', ''thankful'']"

definition negative_words :: "string list" where
  "negative_words = [''bad'', ''sad'', ''worse'', ''hate'', ''terrible'', ''awful'',
     ''depressed'', ''hopeless'', ''never'', ''nothing'', ''nobody'', ''tired'', ''exhausted'',
     ''lonely'', ''worthless'', ''stupid'', ''low'', ''tired'', ''despise'', ''alone'']"

definition count_words :: "string list \<Rightarrow> string \<Rightarrow> int" where
  "count_words words text_lower = int (length (filter (\<lambda>word. py_in word text_lower) words))"

definition keyword_counts :: "string \<Rightarrow> int \<times> int" where
  "keyword_counts text =
     (let text_lower = lower text;
          pos_count = count_words positive_words text_lower;
          neg_count = count_words negative_words text_lower
      in (pos_count, neg_count))"

text \<open>The negative list as the specification gives it: nineteen distinct words.\<close>

definition negative_listed :: "string list" where
  "negative_listed = [''bad'', ''sad'', ''worse'', ''hate'', ''terrible'', ''awful'',
     ''depressed'', ''hopeless'', ''never'', ''nothing'', ''nobody'', ''tired'', ''exhausted'',
     ''lonely'', ''worthless'', ''stupid'', ''low'', ''despise'', ''alone'']"

text \<open>The listed words that occur in a text, case-insensitively, as substrings.\<close>

definition occurring :: "string list \<Rightarrow> string \<Rightarrow> string list" where
  "occurring listed text = filter (\<lambda>w. is_substring w (lower text)) listed"

section \<open>The recommendation report\<close>

text \<open>Exceptions of the Python program that the model keeps as values.\<close>

datatype py_error = TypeError | KeyError | IndexError | FileNotFoundError | ParserError

text \<open>
  The fields of an \<open>Assessment\<close> that \<open>generate_recommendations\<close> reads. A field that was
  never set is \<open>None\<close>: item 9 is set only when a ninth response was scored.
\<close>

record assessment =
  phq9_total :: int
  phq9_q9 :: "int option"
  facial_dominant_emotion :: "string option"
  vocal_dominant_emotion :: "string option"
  sentiment_polarity :: "real option"

text \<open>\<open>str.title()\<close> on ASCII text: a letter is upper case after a non-letter, else lower case.\<close>

definition upper_char :: "char \<Rightarrow> char" where
  "upper_char c =
     (case map_of (zip ''abcdefghijklmnopqrstuvwxyz'' ''ABCDEFGHIJKLMNOPQRSTUVWXYZ'') c of
        Some u \<Rightarrow> u
      | None \<Rightarrow> c)"

definition is_letter :: "char \<Rightarrow> bool" where
  "is_letter c \<longleftrightarrow> c \<in> set ''abcdefghijklmnopqrstuvwxyzABCDEFGHIJKLMNOPQRSTUVWXYZ''"

fun title_from :: "bool \<Rightarrow> string \<Rightarrow> string" where
  "title_from inside [] = []"
| "title_from inside (c # cs) =
     (if is_letter c then (if inside then lower_char c else upper_char c) # title_from True cs
      else c # title_from False cs)"

definition title :: "string \<Rightarrow> string" where
  "title s = title_from False s"

text \<open>The three symbols of the report that are not ASCII, as their UTF-8 bytes.\<close>

definition check_mark :: string where
  "check_mark = [CHR 0xE2, CHR 0x9C, CHR 0x93]"

definition warning_sign :: string where
  "warning_sign = [CHR 0xE2, CHR 0x9A, CHR 0xA0, CHR 0xEF, CHR 0xB8, CHR 0x8F]"

definition bullet :: string where
  "bullet = [CHR 0xE2, CHR 0x80, CHR 0xA2]"

text \<open>The lines appended when \<open>assessment.phq9_q9 >= 1\<close> holds in the last severity branch.\<close>

definition crisis_block :: "string list" where
  "crisis_block =
     ['''',
      warning_sign @ '' You indicated thoughts of self-harm. This is serious.'',
      ''Please reach out immediately to someone you trust or call a crisis helpline.'']"

text \<open>
  The PHQ-9 based recommendations. The comparison \<open>assessment.phq9_q9 >= 1\<close> raises
  \<open>TypeError\<close> when item 9 is \<open>None\<close>.
\<close>

definition severity_lines :: "assessment \<Rightarrow> py_error + string list" where
  "severity_lines a =
     (if phq9_total a \<le> 4 then
        Inr [check_mark @ '' Your responses suggest minimal or no depression symptoms.'',
             ''Continue healthy habits: exercise, sleep (7-9 hours), social connections.'',
             ''Practice mindfulness and stress management techniques.'']
      else if phq9_total a \<le> 9 then
        Inr [''Your responses indicate mild depression symptoms.'',
             ''Lifestyle modifications:'',
             ''  '' @ bullet @ '' Regular physical activity (30 min, 5 days/week)'',
             ''  '' @ bullet @ '' Consistent sleep schedule'',
             ''  '' @ bullet @ '' Balanced diet and hydration'',
             ''  '' @ bullet @ '' Social engagement'',
             ''Monitor symptoms. Consult professional if they persist beyond 2 weeks.'']
      else if phq9_total a \<le> 14 then
        Inr [warning_sign @ '' Your responses suggest moderate depression.'',
             ''We recommend consulting a mental health professional.'',
             ''Treatment options:'',
             ''  '' @ bullet @ '' Cognitive Behavioral Therapy (CBT)'',
             ''  '' @ bullet @ '' Counseling or psychotherapy'',
             ''  '' @ bullet @ '' Lifestyle modifications'',
             ''  '' @ bullet @ '' Consider medication evaluation if recommended'']
      else
        (case phq9_q9 a of
           None \<Rightarrow> Inl TypeError
         | Some q9 \<Rightarrow>
             Inr ([warning_sign @ '' IMPORTANT: Your responses indicate significant depression.'',
                   ''Please seek professional help immediately:'',
                   ''  '' @ bullet @ '' Contact a mental health professional'',
                   ''  '' @ bullet @ '' Visit your primary care physician'']
                  @ (if q9 \<ge> 1 then crisis_block else []))))"

definition facial_lines :: "assessment \<Rightarrow> string list" where
  "facial_lines a =
     (case facial_dominant_emotion a of
        None \<Rightarrow> []
      | Some emotion \<Rightarrow>
          if emotion = [] then []
          else ['''', ''--- Facial Expression Analysis ---'', ''Dominant emotion: '' @ title emotion]
               @ (if emotion \<in> set [''sad'', ''angry'', ''fear'', ''disgust'']
                  then [''Your facial expressions suggest emotional distress.''] else []))"

definition vocal_lines :: "assessment \<Rightarrow> string list" where
  "vocal_lines a =
     (case vocal_dominant_emotion a of
        None \<Rightarrow> []
      | Some emotion \<Rightarrow>
          if emotion = [] then []
          else ['''', ''--- Voice Analysis ---'', ''Vocal emotion: '' @ title emotion]
               @ (if emotion \<in> set [''sad'', ''angry'', ''fear'']
                  then [''Your voice patterns indicate negative emotions.''] else []))"

text \<open>\<open>format_2f\<close> stands for the \<open>:.2f\<close> formatting of the polarity.\<close>

definition language_lines :: "(real \<Rightarrow> string) \<Rightarrow> assessment \<Rightarrow> string list" where
  "language_lines format_2f a =
     (case sentiment_polarity a of
        None \<Rightarrow> []
      | Some polarity \<Rightarrow>
          ['''', ''--- Language Analysis ---'']
          @ (if polarity < - 0.3 then
               [''Your language shows negative sentiment (score: '' @ format_2f polarity @ '')'',
                ''Consider talking with someone you trust about your feelings.'']
             else if polarity > 0.3 then
               [''Your language shows positive sentiment (score: '' @ format_2f polarity @ '')'']
             else []))"

definition wellness_lines :: "string list" where
  "wellness_lines =
     ['''',
      ''--- General Wellness Tips ---'',
      bullet @ '' Deep breathing exercises: 5-10 minutes daily'',
      bullet @ '' Limit caffeine and alcohol'',
      bullet @ '' Spend time in nature/sunlight'',
      bullet @ '' Journal your thoughts'',
      bullet @ '' Set small, achievable daily goals'']"

text \<open>The list \<open>recommendations\<close> at the end of \<open>generate_recommendations\<close>.\<close>

definition recommendation_lines :: "(real \<Rightarrow> string) \<Rightarrow> assessment \<Rightarrow> py_error + string list" where
  "recommendation_lines format_2f a =
     (case severity_lines a of
        Inl e \<Rightarrow> Inl e
      | Inr recommendations \<Rightarrow>
          Inr (recommendations @ facial_lines a @ vocal_lines a @ language_lines format_2f a
               @ wellness_lines))"

text \<open>\<open>'\n'.join(lines)\<close>.\<close>

fun join_lines :: "string list \<Rightarrow> string" where
  "join_lines [] = []"
| "join_lines [l] = l"
| "join_lines (l # ls) = l @ CHR 0x0A # join_lines ls"

definition generate_recommendations ::
  "(real \<Rightarrow> string) \<Rightarrow> assessment \<Rightarrow> py_error + string \<times> string" where
  "generate_recommendations format_2f a =
     (case recommendation_lines format_2f a of
        Inl e \<Rightarrow> Inl e
      | Inr recommendations \<Rightarrow> Inr (classify (phq9_total a), join_lines recommendations))"

text \<open>A report contains a block when the block's lines occur in it, consecutively.\<close>

definition contains_block :: "string list \<Rightarrow> string list \<Rightarrow> bool" where
  "contains_block block ls = (\<exists>ps ss. ls = ps @ block @ ss)"

definition report_has_crisis_block :: "(real \<Rightarrow> string) \<Rightarrow> assessment \<Rightarrow> bool" where
  "report_has_crisis_block format_2f a =
     (case recommendation_lines format_2f a of
        Inl e \<Rightarrow> False
      | Inr ls \<Rightarrow> contains_block crisis_block ls)"

text \<open>
  An assessment with total 15 and item 9 scored 1, for instance the item scores
  2, 2, 2, 2, 2, 2, 2, 0, 1; and a formatting of floats for the examples.
\<close>

definition moderately_severe_case :: assessment where
  "moderately_severe_case = \<lparr>phq9_total = 15, phq9_q9 = Some 1,
     facial_dominant_emotion = None, vocal_dominant_emotion = None,
     sentiment_polarity = None\<rparr>"

text \<open>An assessment on the Mild band.\<close>

definition mild_case :: assessment where
  "mild_case = \<lparr>phq9_total = 7, phq9_q9 = Some 1,
     facial_dominant_emotion = Some ''sad'', vocal_dominant_emotion = None,
     sentiment_polarity = Some 0\<rparr>"

definition format_2f_plain :: "real \<Rightarrow> string" where
  "format_2f_plain x = ''?''"

text \<open>The first warning line of the crisis block.\<close>

definition self_harm_line :: string where
  "self_harm_line = warning_sign @ '' You indicated thoughts of self-harm. This is serious.''"

section \<open>The dominant vocal emotion\<close>

text \<open>
  \<open>collections.Counter\<close> is a dictionary that keeps insertion order: an association list
  of the labels, in the order in which they were first counted, with their counts.
  \<open>counter_add\<close> is \<open>self[elem] = self.get(elem, 0) + 1\<close>.
\<close>

fun counter_add :: "'a \<Rightarrow> ('a \<times> nat) list \<Rightarrow> ('a \<times> nat) list" where
  "counter_add elem [] = [(elem, 1)]"
| "counter_add elem ((k, n) # items) =
     (if k = elem then (k, n + 1) # items else (k, n) # counter_add elem items)"

definition Counter :: "'a list \<Rightarrow> ('a \<times> nat) list" where
  "Counter iterable = foldl (\<lambda>self elem. counter_add elem self) [] iterable"

text \<open>
  \<open>most_common(1)\<close> is \<open>max(self.items(), key=itemgetter(1))\<close> in a list, or the empty
  list for an empty counter. Python's \<open>max\<close> keeps the first of several maximal items: it
  replaces its candidate only by a strictly greater one.
\<close>

fun max_by_count :: "('a \<times> nat) \<Rightarrow> ('a \<times> nat) list \<Rightarrow> ('a \<times> nat)" where
  "max_by_count best [] = best"
| "max_by_count best (item # items) =
     max_by_count (if snd item > snd best then item else best) items"

definition most_common1 :: "('a \<times> nat) list \<Rightarrow> ('a \<times> nat) list" where
  "most_common1 self = (case self of [] \<Rightarrow> [] | item # items \<Rightarrow> [max_by_count item items])"

text \<open>\<open>aggregate_vocal_emotions\<close>; the index \<open>[0]\<close> raises \<open>IndexError\<close> on an empty list.\<close>

definition aggregate_vocal_emotions :: "string list \<Rightarrow> py_error + string" where
  "aggregate_vocal_emotions vocal_timeline =
     (if vocal_timeline = [] then Inr ''neutral''
      else case most_common1 (Counter vocal_timeline) of
             [] \<Rightarrow> Inl IndexError
           | item # _ \<Rightarrow> Inr (fst item))"

text \<open>The position at which a label is first observed in a timeline.\<close>

definition first_seen :: "'a list \<Rightarrow> 'a \<Rightarrow> nat" where
  "first_seen timeline label = length (takeWhile (\<lambda>l. l \<noteq> label) timeline)"

text \<open>The distinct labels of a timeline in the order of their first observation.\<close>

definition first_occ :: "'a list \<Rightarrow> 'a list" where
  "first_occ timeline = rev (remdups (rev timeline))"

section \<open>Loading the heart-rate table\<close>

text \<open>
  A cell of a pandas table read from CSV is a float or a string; a missing value is the
  float NaN. A table has its column names and its rows; a row gives the cell of each column.
\<close>

datatype cell = Num pyfloat | Str string

definition isna :: "cell \<Rightarrow> bool" where
  "isna c \<longleftrightarrow> c = Num NaN"

record frame =
  columns :: "string list"
  rows :: "(string \<Rightarrow> cell) list"

text \<open>\<open>df[name]\<close>, which raises \<open>KeyError\<close> for a name that is no column.\<close>

definition getitem :: "frame \<Rightarrow> string \<Rightarrow> py_error + cell list" where
  "getitem df name =
     (if name \<in> set (columns df) then Inr (map (\<lambda>row. row name) (rows df)) else Inl KeyError)"

text \<open>\<open>df[name] = series\<close>: a new column goes last, an old one keeps its place.\<close>

definition setitem :: "frame \<Rightarrow> string \<Rightarrow> cell list \<Rightarrow> frame" where
  "setitem df name series =
     df\<lparr>columns := (if name \<in> set (columns df) then columns df else columns df @ [name]),
        rows := map (\<lambda>(row, v). row(name := v)) (zip (rows df) series)\<rparr>"

text \<open>\<open>df.dropna(subset=[name])\<close>.\<close>

definition dropna :: "frame \<Rightarrow> string \<Rightarrow> py_error + frame" where
  "dropna df name =
     (if name \<in> set (columns df)
      then Inr (df\<lparr>rows := filter (\<lambda>row. \<not> isna (row name)) (rows df)\<rparr>)
      else Inl KeyError)"

text \<open>
  \<open>pd.to_numeric(series, errors='coerce')\<close>. \<open>parse\<close> is the number that pandas reads
  from a string, NaN when it reads none.
\<close>

definition coerce :: "(string \<Rightarrow> pyfloat) \<Rightarrow> cell \<Rightarrow> cell" where
  "coerce parse c = (case c of Num x \<Rightarrow> Num x | Str s \<Rightarrow> Num (parse s))"

definition to_numeric :: "(string \<Rightarrow> pyfloat) \<Rightarrow> cell list \<Rightarrow> cell list" where
  "to_numeric parse series = map (coerce parse) series"

text \<open>
  The body of the \<open>try\<close> block of \<open>load_heart_rate_data\<close>. \<open>read_csv\<close> is
  \<open>pd.read_csv\<close> on the file system: a table, or the exception it raises.
\<close>

definition load_body ::
  "(string \<Rightarrow> py_error + frame) \<Rightarrow> (string \<Rightarrow> pyfloat) \<Rightarrow> string \<Rightarrow> py_error + frame" where
  "load_body read_csv parse csv_path =
     (case read_csv csv_path of
        Inl e \<Rightarrow> Inl e
      | Inr df \<Rightarrow>
          (case (if ''heart_rate'' \<notin> set (columns df)
                 then (case find (\<lambda>col. py_in ''heart'' (lower col) \<or> py_in ''bpm'' (lower col))
                               (columns df) of
                         None \<Rightarrow> Inr df
                       | Some col \<Rightarrow>
                           (case getitem df col of
                              Inl e \<Rightarrow> Inl e
                            | Inr series \<Rightarrow> Inr (setitem df ''heart_rate'' series)))
                 else Inr df) of
             Inl e \<Rightarrow> Inl e
           | Inr df \<Rightarrow>
               (case dropna df ''heart_rate'' of
                  Inl e \<Rightarrow> Inl e
                | Inr df \<Rightarrow>
                    (case getitem df ''heart_rate'' of
                       Inl e \<Rightarrow> Inl e
                     | Inr series \<Rightarrow>
                         dropna (setitem df ''heart_rate'' (to_numeric parse series))
                           ''heart_rate''))))"

text \<open>\<open>load_heart_rate_data\<close>: every exception of the body is caught and gives \<open>None\<close>.\<close>

definition load_heart_rate_data ::
  "(string \<Rightarrow> py_error + frame) \<Rightarrow> (string \<Rightarrow> pyfloat) \<Rightarrow> string \<Rightarrow> frame option" where
  "load_heart_rate_data read_csv parse csv_path =
     (case load_body read_csv parse csv_path of Inl e \<Rightarrow> None | Inr df \<Rightarrow> Some df)"

text \<open>
  \<open>calculate_hrv_metrics\<close>. \<open>numpy_metrics\<close> stands for the NumPy computation of the
  seven metrics in double arithmetic; arithmetic on an array that holds a string raises
  \<open>TypeError\<close>.
\<close>

definition float_of :: "cell \<Rightarrow> pyfloat" where
  "float_of c = (case c of Num x \<Rightarrow> x | Str s \<Rightarrow> NaN)"

definition is_str :: "cell \<Rightarrow> bool" where
  "is_str c = (case c of Num x \<Rightarrow> False | Str s \<Rightarrow> True)"

definition calculate_hrv_metrics ::
  "(pyfloat list \<Rightarrow> hrv_metrics) \<Rightarrow> cell list \<Rightarrow> py_error + hrv_metrics option" where
  "calculate_hrv_metrics numpy_metrics heart_rates =
     (if length heart_rates < 2 then Inr None
      else if list_ex is_str heart_rates then Inl TypeError
      else Inr (Some (numpy_metrics (map float_of heart_rates))))"

text \<open>\<open>analyze_cardiovascular_stress\<close>.\<close>

definition analyze_cardiovascular_stress ::
  "(string \<Rightarrow> py_error + frame) \<Rightarrow> (string \<Rightarrow> pyfloat) \<Rightarrow> (pyfloat list \<Rightarrow> hrv_metrics) \<Rightarrow>
   (pyfloat \<Rightarrow> string) \<Rightarrow> string \<Rightarrow> py_error + stress_result option" where
  "analyze_cardiovascular_stress read_csv parse numpy_metrics format_1f csv_path =
     (case load_heart_rate_data read_csv parse csv_path of
        None \<Rightarrow> Inr None
      | Some df \<Rightarrow>
          if length (rows df) = 0 then Inr None
          else (case getitem df ''heart_rate'' of
                  Inl e \<Rightarrow> Inl e
                | Inr heart_rates \<Rightarrow>
                    (case calculate_hrv_metrics numpy_metrics heart_rates of
                       Inl e \<Rightarrow> Inl e
                     | Inr None \<Rightarrow> Inr None
                     | Inr (Some m) \<Rightarrow>
                         Inr (Some (classify_stress format_1f m (length heart_rates))))))"

text \<open>
  The heart-rate column as the specification words its discovery: the exact name, else the
  first column whose name contains \<open>heart\<close> or \<open>bpm\<close>, case-insensitively.
\<close>

definition discover_column :: "frame \<Rightarrow> string option" where
  "discover_column df =
     (if ''heart_rate'' \<in> set (columns df) then Some ''heart_rate''
      else find (\<lambda>col. is_substring ''heart'' (lower col) \<or> is_substring ''bpm'' (lower col))
             (columns df))"

text \<open>
  Example inputs: a missing file; a table without a heart-rate column; a table whose
  heart-rate column holds a missing value and a text; and a table with two readings.
\<close>

definition read_csv_missing :: "string \<Rightarrow> py_error + frame" where
  "read_csv_missing path = Inl FileNotFoundError"

definition steps_row :: "string \<Rightarrow> cell" where
  "steps_row col = (if col = ''steps'' then Num (Finite 120) else Str ''08:00'')"

definition steps_frame :: frame where
  "steps_frame = \<lparr>columns = [''time'', ''steps''], rows = [steps_row]\<rparr>"

definition read_csv_steps :: "string \<Rightarrow> py_error + frame" where
  "read_csv_steps path = Inr steps_frame"

definition blank_row :: "string \<Rightarrow> cell" where
  "blank_row col = (if col = ''Heart Rate (BPM)'' then Num NaN else Str ''08:00'')"

definition text_row :: "string \<Rightarrow> cell" where
  "text_row col = (if col = ''Heart Rate (BPM)'' then Str ''n/a'' else Str ''08:01'')"

definition blank_frame :: frame where
  "blank_frame = \<lparr>columns = [''time'', ''Heart Rate (BPM)''], rows = [blank_row, text_row]\<rparr>"

definition read_csv_blank :: "string \<Rightarrow> py_error + frame" where
  "read_csv_blank path = Inr blank_frame"

definition reading_72 :: "string \<Rightarrow> cell" where
  "reading_72 col = (if col = ''bpm'' then Str ''72'' else Str ''08:00'')"

definition reading_75 :: "string \<Rightarrow> cell" where
  "reading_75 col = (if col = ''bpm'' then Num (Finite 75) else Str ''08:01'')"

definition readings_frame :: frame where
  "readings_frame = \<lparr>columns = [''time'', ''bpm''], rows = [reading_72, blank_row, reading_75]\<rparr>"

definition read_csv_readings :: "string \<Rightarrow> py_error + frame" where
  "read_csv_readings path = Inr readings_frame"

definition parse_example :: "string \<Rightarrow> pyfloat" where
  "parse_example s = (if s = ''72'' then Finite 72 else NaN)"

definition numpy_example :: "pyfloat list \<Rightarrow> hrv_metrics" where
  "numpy_example heart_rates = example_metrics"

section \<open>Substring search\<close>

lemma startswith_iff: "startswith w t \<longleftrightarrow> (\<exists>ss. t = w @ ss)"
  by (induction w t rule: startswith.induct) auto

lemma py_in_iff: "py_in w t \<longleftrightarrow> (\<exists>ps ss. t = ps @ w @ ss)"
proof (induction t)
  case Nil
  then show ?case by auto
next
  case (Cons c cs)
  show ?case
  proof
    assume "py_in w (c # cs)"
    then consider "startswith w (c # cs)" | "py_in w cs" by auto
    then show "\<exists>ps ss. c # cs = ps @ w @ ss"
    proof cases
      case 1
      then obtain ss where "c # cs = w @ ss" using startswith_iff by blast
      then have "c # cs = [] @ w @ ss" by simp
      then show ?thesis by blast
    next
      case 2
      then obtain ps ss where "cs = ps @ w @ ss" using Cons.IH by blast
      then have "c # cs = (c # ps) @ w @ ss" by simp
      then show ?thesis by blast
    qed
  next
    assume "\<exists>ps ss. c # cs = ps @ w @ ss"
    then obtain ps ss where eq: "c # cs = ps @ w @ ss" by blast
    show "py_in w (c # cs)"
    proof (cases ps)
      case Nil
      then have "startswith w (c # cs)" using eq startswith_iff by auto
      then show ?thesis by simp
    next
      case (Cons p ps')
      then have "cs = ps' @ w @ ss" using eq by simp
      then have "py_in w cs" using Cons.IH by blast
      then show ?thesis by simp
    qed
  qed
qed

lemma any_in_iff: "any_in ws t \<longleftrightarrow> (\<exists>w \<in> set ws. py_in w t)"
  by (induction ws) auto

lemma bucket_matches_code [code]: "bucket_matches bucket text = any_in (map lower bucket) (lower text)"
  by (simp add: bucket_matches_def is_substring_def any_in_iff py_in_iff)

lemma bucket0_code:
  "bucket_matches bucket0 text =
     any_in [''never'', ''not at all'', ''rarely'', ''no'', ''none''] (lower text)"
  by (simp add: bucket_matches_code bucket0_def lower_def lower_char_def)

lemma bucket1_code:
  "bucket_matches bucket1 text =
     any_in [''sometimes'', ''occasionally'', ''a few'', ''once''] (lower text)"
  by (simp add: bucket_matches_code bucket1_def lower_def lower_char_def)

lemma bucket2_code:
  "bucket_matches bucket2 text =
     any_in [''often'', ''frequently'', ''many'', ''several''] (lower text)"
  by (simp add: bucket_matches_code bucket2_def lower_def lower_char_def)

lemma bucket3_code:
  "bucket_matches bucket3 text =
     any_in [''always'', ''every day'', ''constantly'', ''all the time'', ''daily''] (lower text)"
  by (simp add: bucket_matches_code bucket3_def lower_def lower_char_def)

lemma scoreResponse_cascade:
  "scoreResponse textblob text =
     (if bucket_matches bucket0 text then 0
      else if bucket_matches bucket1 text then 1
      else if bucket_matches bucket2 text then 2
      else if bucket_matches bucket3 text then 3
      else (let polarity = fst (analyze_sentiment textblob (lower text)) in
            if polarity < - 0.3 then 2 else if polarity > 0.3 then 0 else 1))"
  by (simp only: scoreResponse_def Let_def bucket0_code bucket1_code bucket2_code bucket3_code)

section \<open>The severity bands\<close>

text \<open>
  Claim C2. The band of a PHQ-9 total is None-Minimal up to 4, Mild from 5 to 9, Moderate
  from 10 to 14, Moderately Severe from 15 to 19 and Severe from 20 on; the eight boundary
  totals 4, 5, 9, 10, 14, 15, 19 and 20 fall on the sides the specification lists.
\<close>

theorem classify_bands:
  "(phq9_score \<le> 4 \<longrightarrow> classify phq9_score = ''None-Minimal'') \<and>
   (5 \<le> phq9_score \<and> phq9_score \<le> 9 \<longrightarrow> classify phq9_score = ''Mild'') \<and>
   (10 \<le> phq9_score \<and> phq9_score \<le> 14 \<longrightarrow> classify phq9_score = ''Moderate'') \<and>
   (15 \<le> phq9_score \<and> phq9_score \<le> 19 \<longrightarrow> classify phq9_score = ''Moderately Severe'') \<and>
   (20 \<le> phq9_score \<longrightarrow> classify phq9_score = ''Severe'') \<and>
   classify 4 = ''None-Minimal'' \<and> classify 5 = ''Mild'' \<and> classify 9 = ''Mild'' \<and>
   classify 10 = ''Moderate'' \<and> classify 14 = ''Moderate'' \<and>
   classify 15 = ''Moderately Severe'' \<and> classify 19 = ''Moderately Severe'' \<and>
   classify 20 = ''Severe''"
  by (simp add: classify_def)

theorem classify_bands_witness:
  "(3::int) \<le> 4 \<and> classify 3 = ''None-Minimal'' \<and>
   (5::int) \<le> 7 \<and> (7::int) \<le> 9 \<and> classify 7 = ''Mild'' \<and>
   (10::int) \<le> 12 \<and> (12::int) \<le> 14 \<and> classify 12 = ''Moderate'' \<and>
   (15::int) \<le> 17 \<and> (17::int) \<le> 19 \<and> classify 17 = ''Moderately Severe'' \<and>
   (20::int) \<le> 27 \<and> classify 27 = ''Severe''"
  using classify_bands [of 3] classify_bands [of 7] classify_bands [of 12]
    classify_bands [of 17] classify_bands [of 27]
  by simp

section \<open>The keyword cascade\<close>

text \<open>
  Claim C1. The four keyword buckets are tried in the order 0, 1, 2, 3 by case-insensitive
  substring match, and the score is the value of the first bucket that matches, whatever
  later buckets match as well; the text \<open>I never feel sad\<close> scores 0.
\<close>

theorem scoreResponse_first_match:
  "(bucket_matches bucket0 text \<longrightarrow> scoreResponse textblob text = 0) \<and>
   (\<not> bucket_matches bucket0 text \<and> bucket_matches bucket1 text \<longrightarrow>
      scoreResponse textblob text = 1) \<and>
   (\<not> bucket_matches bucket0 text \<and> \<not> bucket_matches bucket1 text \<and>
    bucket_matches bucket2 text \<longrightarrow> scoreResponse textblob text = 2) \<and>
   (\<not> bucket_matches bucket0 text \<and> \<not> bucket_matches bucket1 text \<and>
    \<not> bucket_matches bucket2 text \<and> bucket_matches bucket3 text \<longrightarrow>
      scoreResponse textblob text = 3) \<and>
   scoreResponse textblob ''I never feel sad'' = 0"
proof -
  have "bucket_matches bucket0 ''I never feel sad''"
    by code_simp
  then show ?thesis
    by (simp add: scoreResponse_cascade)
qed

theorem scoreResponse_first_match_witness:
  "bucket_matches bucket0 ''NEVER, or once daily'' \<and>
   bucket_matches bucket3 ''NEVER, or once daily'' \<and>
   scoreResponse textblob_neutral ''NEVER, or once daily'' = 0 \<and>
   \<not> bucket_matches bucket0 ''Sometimes I always worry'' \<and>
   bucket_matches bucket1 ''Sometimes I always worry'' \<and>
   bucket_matches bucket3 ''Sometimes I always worry'' \<and>
   scoreResponse textblob_neutral ''Sometimes I always worry'' = 1 \<and>
   \<not> bucket_matches bucket0 ''Often, almost daily'' \<and>
   \<not> bucket_matches bucket1 ''Often, almost daily'' \<and>
   bucket_matches bucket2 ''Often, almost daily'' \<and>
   bucket_matches bucket3 ''Often, almost daily'' \<and>
   scoreResponse textblob_neutral ''Often, almost daily'' = 2 \<and>
   \<not> bucket_matches bucket0 ''Every Day'' \<and>
   \<not> bucket_matches bucket1 ''Every Day'' \<and>
   \<not> bucket_matches bucket2 ''Every Day'' \<and>
   bucket_matches bucket3 ''Every Day'' \<and>
   scoreResponse textblob_neutral ''Every Day'' = 3"
proof -
  have a: "bucket_matches bucket0 ''NEVER, or once daily''"
    and a3: "bucket_matches bucket3 ''NEVER, or once daily''"
    by code_simp+
  have b0: "\<not> bucket_matches bucket0 ''Sometimes I always worry''"
    and b1: "bucket_matches bucket1 ''Sometimes I always worry''"
    and b3: "bucket_matches bucket3 ''Sometimes I always worry''"
    by code_simp+
  have c0: "\<not> bucket_matches bucket0 ''Often, almost daily''"
    and c1: "\<not> bucket_matches bucket1 ''Often, almost daily''"
    and c2: "bucket_matches bucket2 ''Often, almost daily''"
    and c3: "bucket_matches bucket3 ''Often, almost daily''"
    by code_simp+
  have d0: "\<not> bucket_matches bucket0 ''Every Day''"
    and d1: "\<not> bucket_matches bucket1 ''Every Day''"
    and d2: "\<not> bucket_matches bucket2 ''Every Day''"
    and d3: "bucket_matches bucket3 ''Every Day''"
    by code_simp+
  show ?thesis
    using a a3 b0 b1 b3 c0 c1 c2 c3 d0 d1 d2 d3
      scoreResponse_first_match [of "''NEVER, or once daily''" textblob_neutral]
      scoreResponse_first_match [of "''Sometimes I always worry''" textblob_neutral]
      scoreResponse_first_match [of "''Often, almost daily''" textblob_neutral]
      scoreResponse_first_match [of "''Every Day''" textblob_neutral]
    by simp
qed

section \<open>The sentiment fallback\<close>

text \<open>
  Claim C6, as the specification states it, fails: \<open>I feel alright, nothing special\<close>
  contains the bucket-0 keyword \<open>no\<close> (inside \<open>nothing\<close>), so it scores 0 and
  never reaches the fallback.
\<close>

theorem scoreResponse_nothing_special_counterexample:
  "bucket_matches bucket0 ''I feel alright, nothing special'' \<and>
   \<not> (scoreResponse textblob_neutral ''I feel alright, nothing special'' = 1)"
  by code_simp

text \<open>
  Claim C6, amended. \<open>I feel alright, nothing special\<close> scores 0 whatever the
  sentiment; a text that matches no bucket takes the fallback (polarity below -0.3 gives
  2, above 0.3 gives 0, otherwise 1), and \<open>I feel alright\<close>, which matches no bucket,
  scores 1 at polarity 0.0.
\<close>

theorem scoreResponse_fallback:
  "scoreResponse textblob ''I feel alright, nothing special'' = 0 \<and>
   (\<not> bucket_matches bucket0 text \<and> \<not> bucket_matches bucket1 text \<and>
    \<not> bucket_matches bucket2 text \<and> \<not> bucket_matches bucket3 text \<longrightarrow>
      scoreResponse textblob text =
        (let polarity = fst (analyze_sentiment textblob (lower text)) in
         if polarity < - 0.3 then 2 else if polarity > 0.3 then 0 else 1)) \<and>
   fst (analyze_sentiment textblob_neutral (lower ''I feel alright'')) = 0.0 \<and>
   scoreResponse textblob_neutral ''I feel alright'' = 1"
proof -
  have "bucket_matches bucket0 ''I feel alright, nothing special''"
    by code_simp
  moreover have "fst (analyze_sentiment textblob_neutral (lower ''I feel alright'')) = 0.0"
    by code_simp
  moreover have "scoreResponse textblob_neutral ''I feel alright'' = 1"
    by code_simp
  ultimately show ?thesis
    by (simp add: scoreResponse_cascade)
qed

theorem scoreResponse_fallback_witness:
  "\<not> bucket_matches bucket0 ''I feel alright'' \<and> \<not> bucket_matches bucket1 ''I feel alright'' \<and>
   \<not> bucket_matches bucket2 ''I feel alright'' \<and> \<not> bucket_matches bucket3 ''I feel alright'' \<and>
   scoreResponse textblob_neutral ''I feel alright'' = 1"
proof -
  have h: "\<not> bucket_matches bucket0 ''I feel alright''" "\<not> bucket_matches bucket1 ''I feel alright''"
    "\<not> bucket_matches bucket2 ''I feel alright''" "\<not> bucket_matches bucket3 ''I feel alright''"
    by code_simp+
  show ?thesis
    using h scoreResponse_fallback [of textblob_neutral "''I feel alright''"]
    by simp
qed

section \<open>The stress score\<close>

lemma classify_stress_score:
  "stress_score (classify_stress f m n) =
     fst (hr_signal f m) + fst (rmssd_signal f m) + fst (sdnn_signal f m)"
  by (simp add: classify_stress_def hr_signal_def rmssd_signal_def sdnn_signal_def)

lemma classify_stress_indicators:
  "stress_indicators (classify_stress f m n) =
     snd (hr_signal f m) @ snd (rmssd_signal f m) @ snd (sdnn_signal f m)"
  by (simp add: classify_stress_def hr_signal_def rmssd_signal_def sdnn_signal_def)

lemma classify_stress_level:
  "stress_level (classify_stress f m n) = level_of (stress_score (classify_stress f m n))"
  by (simp add: classify_stress_def level_of_def Let_def split: prod.splits)

text \<open>
  Claim C5. The stress score is the sum of three independent signals: a mean heart rate
  above 90 gives 3 points and an indicator, otherwise above 80 gives 2 points and no
  indicator; an RMSSD below 15 gives 3 points and an indicator, otherwise below 25 gives 2
  points and no indicator; an SDNN below 40 gives 2 points and an indicator. The level is
  High from 7 points, Moderate from 4, otherwise Low. With a mean heart rate of 95, an RMSSD
  of 10 and an SDNN of 30 the score is 8, the level High, and there are three indicators.
\<close>

theorem classify_stress_signals:
  "stress_score (classify_stress f m n) =
     fst (hr_signal f m) + fst (rmssd_signal f m) + fst (sdnn_signal f m) \<and>
   stress_indicators (classify_stress f m n) =
     snd (hr_signal f m) @ snd (rmssd_signal f m) @ snd (sdnn_signal f m) \<and>
   stress_level (classify_stress f m n) = level_of (stress_score (classify_stress f m n)) \<and>
   (mean_hr m = Finite 95 \<and> rmssd m = Finite 10 \<and> sdnn m = Finite 30 \<longrightarrow>
      stress_score (classify_stress f m n) = 8 \<and>
      stress_level (classify_stress f m n) = ''High'' \<and>
      length (stress_indicators (classify_stress f m n)) = 3)"
  by (simp add: classify_stress_score classify_stress_indicators classify_stress_level
      hr_signal_def rmssd_signal_def sdnn_signal_def level_of_def)

theorem classify_stress_signals_witness:
  "mean_hr example_metrics = Finite 95 \<and> rmssd example_metrics = Finite 10 \<and>
   sdnn example_metrics = Finite 30 \<and>
   stress_score (classify_stress format_plain example_metrics 5) = 8 \<and>
   stress_level (classify_stress format_plain example_metrics 5) = ''High'' \<and>
   length (stress_indicators (classify_stress format_plain example_metrics 5)) = 3"
proof -
  have h: "mean_hr example_metrics = Finite 95 \<and> rmssd example_metrics = Finite 10 \<and>
    sdnn example_metrics = Finite 30"
    by (simp add: example_metrics_def)
  show ?thesis
    using h classify_stress_signals [of format_plain example_metrics 5] by blast
qed

lemma signal_values:
  "fst (hr_signal f m) \<in> {0, 2, 3}" "fst (rmssd_signal f m) \<in> {0, 2, 3}"
  "fst (sdnn_signal f m) \<in> {0, 2}" "fst (sdnn_signal f m) = 2 \<longleftrightarrow> flt (sdnn m) 40"
  by (simp_all add: hr_signal_def rmssd_signal_def sdnn_signal_def)

text \<open>
  Claim C10. The stress score is at most 8 and never 1, and the level High needs the SDNN
  signal: the other two signals give at most 3 + 3 = 6 points.
\<close>

theorem stress_score_bounds:
  "stress_score (classify_stress f m n) \<le> 8 \<and>
   stress_score (classify_stress f m n) \<noteq> 1 \<and>
   (stress_level (classify_stress f m n) = ''High'' \<longrightarrow> flt (sdnn m) 40)"
proof -
  let ?a = "fst (hr_signal f m)" and ?b = "fst (rmssd_signal f m)" and ?c = "fst (sdnn_signal f m)"
  have s: "stress_score (classify_stress f m n) = ?a + ?b + ?c"
    by (rule classify_stress_score)
  have a: "?a = 0 \<or> ?a = 2 \<or> ?a = 3" and b: "?b = 0 \<or> ?b = 2 \<or> ?b = 3"
    and c: "?c = 0 \<or> ?c = 2"
    using signal_values [of f m] by auto
  have le: "?a + ?b + ?c \<le> 8" using a b c by arith
  have ne: "?a + ?b + ?c \<noteq> 1" using a b c by arith
  have high: "flt (sdnn m) 40" if "stress_level (classify_stress f m n) = ''High''"
  proof -
    from that have "7 \<le> ?a + ?b + ?c"
      by (simp add: classify_stress_level s level_of_def split: if_splits)
    with a b c have "?c = 2" by arith
    then show ?thesis using signal_values(4) by blast
  qed
  show ?thesis using s le ne high by simp
qed

theorem stress_score_bounds_witness:
  "stress_level (classify_stress format_plain example_metrics 5) = ''High'' \<and>
   flt (sdnn example_metrics) 40 \<and>
   stress_score (classify_stress format_plain example_metrics 5) \<le> 8"
proof -
  have h: "stress_level (classify_stress format_plain example_metrics 5) = ''High''"
    by (simp add: classify_stress_def example_metrics_def)
  show ?thesis
    using h stress_score_bounds [of format_plain example_metrics 5] by simp
qed

section \<open>Keyword counts\<close>

lemma is_substring_code [code]: "is_substring w t = py_in w t"
  by (simp add: is_substring_def py_in_iff)

lemma count_words_tired:
  "count_words negative_words t =
     int (length (filter (\<lambda>w. py_in w t) negative_listed)) + (if py_in ''tired'' t then 1 else 0)"
proof -
  define A where "A = [''bad'', ''sad'', ''worse'', ''hate'', ''terrible'', ''awful'',
     ''depressed'', ''hopeless'', ''never'', ''nothing'', ''nobody'']"
  define B where "B = [''exhausted'', ''lonely'', ''worthless'', ''stupid'', ''low'']"
  define C where "C = [''despise'', ''alone'']"
  have nw: "negative_words = A @ ''tired'' # B @ ''tired'' # C"
    by (simp add: negative_words_def A_def B_def C_def)
  have nl: "negative_listed = A @ ''tired'' # B @ C"
    by (simp add: negative_listed_def A_def B_def C_def)
  show ?thesis
    unfolding count_words_def nw nl by simp
qed

text \<open>
  Claim C8 holds for the positive list but not for the negative one: the source lists
  \<open>tired\<close> twice, so a text in which \<open>tired\<close> occurs counts one more negative keyword
  than there are listed words in it. \<open>I am tired\<close> contains \<open>tired\<close> and no other
  listed word, and its negative count is 2.
\<close>

theorem negative_count_tired_twice:
  "snd (keyword_counts text) =
     int (length (occurring negative_listed text)) +
     (if is_substring ''tired'' (lower text) then 1 else 0) \<and>
   distinct negative_listed \<and>
   occurring negative_listed ''I am tired'' = [''tired''] \<and>
   snd (keyword_counts ''I am tired'') = 2"
proof -
  have general: "snd (keyword_counts text) =
     int (length (occurring negative_listed text)) +
     (if is_substring ''tired'' (lower text) then 1 else 0)"
    by (simp add: keyword_counts_def Let_def count_words_tired occurring_def is_substring_code)
  have d: "distinct negative_listed"
    by (simp add: negative_listed_def)
  have o: "occurring negative_listed ''I am tired'' = [''tired'']"
    by code_simp
  have c: "snd (keyword_counts ''I am tired'') = 2"
    by code_simp
  show ?thesis using general d o c by blast
qed

lemma positive_count:
  "fst (keyword_counts text) = int (length (occurring positive_words text)) \<and>
   distinct positive_words"
  by (simp add: keyword_counts_def Let_def count_words_def occurring_def is_substring_code
      positive_words_def)

section \<open>The crisis block\<close>

lemma self_harm_line_in_block: "self_harm_line \<in> set crisis_block"
  by (simp add: crisis_block_def self_harm_line_def)

lemma contains_block_set: "contains_block b ls \<Longrightarrow> set b \<subseteq> set ls"
  by (auto simp: contains_block_def)

lemma self_harm_not_facial: "self_harm_line \<notin> set (facial_lines a)"
  by (simp add: facial_lines_def self_harm_line_def warning_sign_def split: option.splits)

lemma self_harm_not_vocal: "self_harm_line \<notin> set (vocal_lines a)"
  by (simp add: vocal_lines_def self_harm_line_def warning_sign_def split: option.splits)

lemma self_harm_not_language: "self_harm_line \<notin> set (language_lines f a)"
  by (simp add: language_lines_def self_harm_line_def warning_sign_def split: option.splits)

lemma self_harm_not_wellness: "self_harm_line \<notin> set wellness_lines"
  by (simp add: wellness_lines_def self_harm_line_def warning_sign_def bullet_def)

lemma self_harm_severity:
  "severity_lines a = Inr ls \<Longrightarrow>
     self_harm_line \<in> set ls \<longleftrightarrow> 15 \<le> phq9_total a \<and> (\<exists>q. phq9_q9 a = Some q \<and> 1 \<le> q)"
  by (auto simp: severity_lines_def self_harm_line_def warning_sign_def bullet_def
      check_mark_def crisis_block_def split: if_splits option.splits)

lemma crisis_severity:
  "15 \<le> phq9_total a \<Longrightarrow> phq9_q9 a = Some q \<Longrightarrow> 1 \<le> q \<Longrightarrow>
     \<exists>ps. severity_lines a = Inr (ps @ crisis_block)"
  by (simp add: severity_lines_def)

lemma report_crisis_iff:
  "report_has_crisis_block f a \<longleftrightarrow>
     15 \<le> phq9_total a \<and> (\<exists>q. phq9_q9 a = Some q \<and> 1 \<le> q)"
proof
  assume has: "report_has_crisis_block f a"
  then obtain ls where ls: "recommendation_lines f a = Inr ls"
    and block: "contains_block crisis_block ls"
    by (auto simp: report_has_crisis_block_def split: sum.splits)
  from ls obtain sl where sl: "severity_lines a = Inr sl"
    and eq: "ls = sl @ facial_lines a @ vocal_lines a @ language_lines f a @ wellness_lines"
    by (auto simp: recommendation_lines_def split: sum.splits)
  have "self_harm_line \<in> set ls"
    using contains_block_set [OF block] self_harm_line_in_block by blast
  then have "self_harm_line \<in> set sl"
    using eq self_harm_not_facial [of a] self_harm_not_vocal [of a]
      self_harm_not_language [of f a] self_harm_not_wellness
    by simp
  then show "15 \<le> phq9_total a \<and> (\<exists>q. phq9_q9 a = Some q \<and> 1 \<le> q)"
    using self_harm_severity [OF sl] by blast
next
  assume "15 \<le> phq9_total a \<and> (\<exists>q. phq9_q9 a = Some q \<and> 1 \<le> q)"
  then obtain q where t: "15 \<le> phq9_total a" and q: "phq9_q9 a = Some q" "1 \<le> q"
    by blast
  from crisis_severity [OF t q] obtain ps where sl: "severity_lines a = Inr (ps @ crisis_block)"
    by blast
  have "recommendation_lines f a =
      Inr (ps @ crisis_block @
           (facial_lines a @ vocal_lines a @ language_lines f a @ wellness_lines))"
    by (simp add: recommendation_lines_def sl)
  then show "report_has_crisis_block f a"
    by (auto simp: report_has_crisis_block_def contains_block_def)
qed

lemma classify_from_15:
  "classify t = ''Moderately Severe'' \<or> classify t = ''Severe'' \<longleftrightarrow> 15 \<le> t"
  by (simp add: classify_def)

text \<open>
  Claim C3, as the specification states it, fails: with a total of 15 the band is Moderately
  Severe, not Severe, and item 9 scored 1 puts the crisis block into the report.
\<close>

theorem crisis_block_moderately_severe_counterexample:
  "classify (phq9_total moderately_severe_case) = ''Moderately Severe'' \<and>
   classify (phq9_total moderately_severe_case) \<noteq> ''Severe'' \<and>
   phq9_q9 moderately_severe_case = Some 1 \<and>
   report_has_crisis_block format_2f_plain moderately_severe_case"
  by (simp add: report_crisis_iff moderately_severe_case_def classify_def)

text \<open>
  Claim C3, amended. The report contains the crisis block if and only if the band is
  Moderately Severe or Severe (the total is at least 15) and item 9 is scored at least 1;
  on every other band the crisis block is absent.
\<close>

theorem crisis_block_iff:
  "(report_has_crisis_block f a \<longleftrightarrow>
      (classify (phq9_total a) = ''Moderately Severe'' \<or> classify (phq9_total a) = ''Severe'') \<and>
      (\<exists>q. phq9_q9 a = Some q \<and> 1 \<le> q)) \<and>
   (classify (phq9_total a) \<in> {''None-Minimal'', ''Mild'', ''Moderate''} \<longrightarrow>
      \<not> report_has_crisis_block f a)"
proof -
  have low: "\<not> 15 \<le> phq9_total a"
    if "classify (phq9_total a) \<in> {''None-Minimal'', ''Mild'', ''Moderate''}"
    using that by (simp add: classify_def split: if_splits)
  show ?thesis
    using low by (auto simp: report_crisis_iff classify_from_15)
qed

theorem crisis_block_iff_witness:
  "classify (phq9_total mild_case) \<in> {''None-Minimal'', ''Mild'', ''Moderate''} \<and>
   \<not> report_has_crisis_block format_2f_plain mild_case"
proof -
  have h: "classify (phq9_total mild_case) \<in> {''None-Minimal'', ''Mild'', ''Moderate''}"
    by (simp add: mild_case_def classify_def)
  show ?thesis
    using h crisis_block_iff [of format_2f_plain mild_case] by blast
qed

section \<open>The counter of a timeline\<close>

lemma Counter_snoc: "Counter (xs @ [x]) = counter_add x (Counter xs)"
  by (simp add: Counter_def)

lemma first_occ_snoc:
  "first_occ (xs @ [x]) = (if x \<in> set xs then first_occ xs else first_occ xs @ [x])"
  by (simp add: first_occ_def)

lemma set_first_occ: "set (first_occ xs) = set xs"
  by (simp add: first_occ_def)

lemma distinct_first_occ: "distinct (first_occ xs)"
  by (simp add: first_occ_def)

lemma counter_add_present:
  "distinct ks \<Longrightarrow> x \<in> set ks \<Longrightarrow>
     counter_add x (map (\<lambda>k. (k, f k)) ks) =
       map (\<lambda>k. (k, if k = x then f k + 1 else f k)) ks"
  by (induction ks) auto

lemma counter_add_absent:
  "x \<notin> set ks \<Longrightarrow> counter_add x (map (\<lambda>k. (k, f k)) ks) = map (\<lambda>k. (k, f k)) ks @ [(x, 1)]"
  by (induction ks) auto

lemma Counter_counts: "Counter xs = map (\<lambda>k. (k, count_list xs k)) (first_occ xs)"
proof (induction xs rule: rev_induct)
  case Nil
  show ?case by (simp add: Counter_def first_occ_def)
next
  case (snoc x xs)
  show ?case
  proof (cases "x \<in> set xs")
    case True
    then have "x \<in> set (first_occ xs)" by (simp add: set_first_occ)
    then show ?thesis
      using True snoc.IH distinct_first_occ [of xs]
      by (simp add: Counter_snoc first_occ_snoc counter_add_present)
  next
    case False
    then have nin: "x \<notin> set (first_occ xs)" by (simp add: set_first_occ)
    have "map (\<lambda>k. (k, count_list xs k)) (first_occ xs) =
          map (\<lambda>k. (k, count_list (xs @ [x]) k)) (first_occ xs)"
      using nin by (intro map_cong) auto
    then show ?thesis
      using False snoc.IH nin
      by (simp add: Counter_snoc first_occ_snoc counter_add_absent)
  qed
qed

lemma max_by_count_split:
  "\<exists>ps ss. best # items = ps @ max_by_count best items # ss \<and>
     (\<forall>p \<in> set ps. snd p < snd (max_by_count best items)) \<and>
     (\<forall>s \<in> set ss. snd s \<le> snd (max_by_count best items))"
proof (induction items arbitrary: best)
  case Nil
  have "[best] = [] @ best # []" by simp
  then show ?case by force
next
  case (Cons item items)
  define b where "b = (if snd item > snd best then item else best)"
  define m where "m = max_by_count b items"
  have m_eq: "max_by_count best (item # items) = m"
    by (simp add: m_def b_def)
  from Cons.IH [of b] obtain ps ss where split: "b # items = ps @ m # ss"
    and before: "\<forall>p \<in> set ps. snd p < snd m"
    and after: "\<forall>s \<in> set ss. snd s \<le> snd m"
    unfolding m_def by blast
  have "b \<in> set (ps @ m # ss)"
    using split by (metis list.set_intros(1))
  then have b_le: "snd b \<le> snd m"
    using before after by (auto simp: less_imp_le)
  have goal: "\<exists>ps ss. best # item # items = ps @ m # ss \<and>
     (\<forall>p \<in> set ps. snd p < snd m) \<and> (\<forall>s \<in> set ss. snd s \<le> snd m)"
  proof (cases "snd item > snd best")
    case True
    then have b: "b = item" by (simp add: b_def)
    have "best # item # items = (best # ps) @ m # ss"
      using split b by simp
    moreover have "\<forall>p \<in> set (best # ps). snd p < snd m"
      using True b b_le before by auto
    ultimately show ?thesis using after by blast
  next
    case False
    then have b: "b = best" by (simp add: b_def)
    show ?thesis
    proof (cases ps)
      case Nil
      then have mb: "m = best" and ss: "ss = items"
        using split b by simp_all
      have "best # item # items = [] @ m # (item # items)"
        using mb by simp
      moreover have "\<forall>s \<in> set (item # items). snd s \<le> snd m"
        using False after mb ss by auto
      moreover have "\<forall>p \<in> set ([] :: ('a \<times> nat) list). snd p < snd m"
        by simp
      ultimately show ?thesis by blast
    next
      case (Cons p ps')
      then have p: "p = best" and rest: "items = ps' @ m # ss"
        using split b by simp_all
      have "best # item # items = (best # item # ps') @ m # ss"
        using rest by simp
      moreover have "\<forall>q \<in> set (best # item # ps'). snd q < snd m"
        using False before Cons p by auto
      ultimately show ?thesis using after by blast
    qed
  qed
  show ?case unfolding m_eq by (rule goal)
qed

lemma first_seen_less: "a \<in> set xs \<Longrightarrow> first_seen xs a < length xs"
  unfolding first_seen_def
  by (induction xs) auto

lemma first_seen_snoc_old: "a \<in> set xs \<Longrightarrow> first_seen (xs @ [x]) a = first_seen xs a"
  by (simp add: first_seen_def)

lemma first_seen_snoc_new: "x \<notin> set xs \<Longrightarrow> first_seen (xs @ [x]) x = length xs"
  unfolding first_seen_def
  by (induction xs) auto

lemma first_occ_sorted:
  "sorted_wrt (\<lambda>a b. first_seen xs a < first_seen xs b) (first_occ xs)"
proof (induction xs rule: rev_induct)
  case Nil
  show ?case by (simp add: first_occ_def)
next
  case (snoc x xs)
  have old: "sorted_wrt (\<lambda>a b. first_seen (xs @ [x]) a < first_seen (xs @ [x]) b) (first_occ xs)"
    using snoc.IH
    by (rule sorted_wrt_mono_rel [rotated]) (simp add: set_first_occ first_seen_snoc_old)
  show ?case
  proof (cases "x \<in> set xs")
    case True
    then show ?thesis using old by (simp add: first_occ_snoc)
  next
    case False
    have "\<forall>a \<in> set (first_occ xs). first_seen (xs @ [x]) a < first_seen (xs @ [x]) x"
      using False by (simp add: set_first_occ first_seen_snoc_old first_seen_snoc_new first_seen_less)
    then show ?thesis using False old by (simp add: first_occ_snoc sorted_wrt_append)
  qed
qed

lemma most_common_label:
  assumes "tline \<noteq> []"
  shows "\<exists>label. aggregate_vocal_emotions tline = Inr label \<and> label \<in> set tline \<and>
     (\<forall>other. count_list tline other \<le> count_list tline label) \<and>
     (\<forall>other \<in> set tline. count_list tline other = count_list tline label \<longrightarrow>
        first_seen tline label \<le> first_seen tline other)"
proof -
  define f where "f = (\<lambda>k. (k, count_list tline k))"
  have items: "Counter tline = map f (first_occ tline)"
    by (simp add: Counter_counts f_def)
  have "first_occ tline \<noteq> []"
    using assms set_first_occ [of tline] by (metis set_empty)
  then obtain k ks where ks: "first_occ tline = k # ks"
    by (cases "first_occ tline") auto
  define m where "m = max_by_count (f k) (map f ks)"
  have result: "aggregate_vocal_emotions tline = Inr (fst m)"
    using assms by (simp add: aggregate_vocal_emotions_def most_common1_def items ks m_def)
  from max_by_count_split [of "f k" "map f ks"] obtain ps ss
    where split: "f k # map f ks = ps @ m # ss"
      and before: "\<forall>p \<in> set ps. snd p < snd m"
      and after: "\<forall>s \<in> set ss. snd s \<le> snd m"
    unfolding m_def by blast
  have "map f (first_occ tline) = ps @ m # ss"
    using split ks by simp
  then obtain ks1 ks' where occ: "first_occ tline = ks1 @ ks'" and ps: "ps = map f ks1"
    and tail: "m # ss = map f ks'"
    by (metis map_eq_append_conv)
  from tail obtain r ks2 where ks': "ks' = r # ks2" and m: "m = f r" and ss: "ss = map f ks2"
    by (metis Cons_eq_map_conv)
  have label: "fst m = r" and count: "snd m = count_list tline r"
    by (simp_all add: m f_def)
  have occ': "first_occ tline = ks1 @ r # ks2"
    using occ ks' by simp
  have r_in: "r \<in> set tline"
    using occ' set_first_occ [of tline] by (metis in_set_conv_decomp)
  have lt1: "count_list tline a < count_list tline r" if "a \<in> set ks1" for a
    using that before ps count by (auto simp: f_def)
  have le2: "count_list tline a \<le> count_list tline r" if "a \<in> set ks2" for a
    using that after ss count by (auto simp: f_def)
  have cases_tl: "a \<in> set ks1 \<or> a = r \<or> a \<in> set ks2" if "a \<in> set tline" for a
  proof -
    from that have "a \<in> set (ks1 @ r # ks2)"
      using occ' set_first_occ [of tline] by simp
    then show ?thesis by auto
  qed
  have most: "count_list tline other \<le> count_list tline r" for other
  proof (cases "other \<in> set tline")
    case True
    then show ?thesis using cases_tl [OF True] lt1 [of other] le2 [of other] by auto
  next
    case False
    then show ?thesis by (simp add: count_list_0_iff)
  qed
  have order: "\<forall>b \<in> set ks2. first_seen tline r < first_seen tline b"
    using first_occ_sorted [of tline] by (simp add: occ' sorted_wrt_append)
  have tie: "first_seen tline r \<le> first_seen tline other"
    if "other \<in> set tline" "count_list tline other = count_list tline r" for other
    using cases_tl [OF that(1)] lt1 [of other] order that(2) by (auto simp: less_imp_le)
  show ?thesis
    using result label r_in most tie by auto
qed

text \<open>
  Claim C7. The empty timeline gives \<open>neutral\<close>. A timeline that is not empty gives a
  label of the timeline that no label outnumbers, and among the labels that are as frequent
  the one observed first. The timeline sad, sad, happy gives \<open>sad\<close>.
\<close>

theorem aggregate_vocal_most_frequent:
  "aggregate_vocal_emotions [] = Inr ''neutral'' \<and>
   (vocal_timeline \<noteq> [] \<longrightarrow>
      (\<exists>label. aggregate_vocal_emotions vocal_timeline = Inr label \<and>
         label \<in> set vocal_timeline \<and>
         (\<forall>other. count_list vocal_timeline other \<le> count_list vocal_timeline label) \<and>
         (\<forall>other \<in> set vocal_timeline.
            count_list vocal_timeline other = count_list vocal_timeline label \<longrightarrow>
              first_seen vocal_timeline label \<le> first_seen vocal_timeline other))) \<and>
   aggregate_vocal_emotions [''sad'', ''sad'', ''happy''] = Inr ''sad''"
proof -
  have empty: "aggregate_vocal_emotions [] = Inr ''neutral''"
    by (simp add: aggregate_vocal_emotions_def)
  have example: "aggregate_vocal_emotions [''sad'', ''sad'', ''happy''] = Inr ''sad''"
    by (simp add: aggregate_vocal_emotions_def most_common1_def Counter_def)
  show ?thesis
    using empty example most_common_label [of vocal_timeline] by blast
qed

theorem aggregate_vocal_most_frequent_witness:
  "[''calm'', ''sad'', ''sad'', ''calm''] \<noteq> [] \<and>
   aggregate_vocal_emotions [''calm'', ''sad'', ''sad'', ''calm''] = Inr ''calm'' \<and>
   count_list [''calm'', ''sad'', ''sad'', ''calm''] ''sad'' =
     count_list [''calm'', ''sad'', ''sad'', ''calm''] ''calm'' \<and>
   first_seen [''calm'', ''sad'', ''sad'', ''calm''] ''calm'' \<le>
     first_seen [''calm'', ''sad'', ''sad'', ''calm''] ''sad''"
proof -
  have ne: "[''calm'', ''sad'', ''sad'', ''calm''] \<noteq> []"
    by simp
  have sad: "''sad'' \<in> set [''calm'', ''sad'', ''sad'', ''calm'']"
    and tie: "count_list [''calm'', ''sad'', ''sad'', ''calm''] ''sad'' =
      count_list [''calm'', ''sad'', ''sad'', ''calm''] ''calm''"
    by simp_all
  have res: "aggregate_vocal_emotions [''calm'', ''sad'', ''sad'', ''calm''] = Inr ''calm''"
    by (simp add: aggregate_vocal_emotions_def most_common1_def Counter_def)
  from aggregate_vocal_most_frequent [of "[''calm'', ''sad'', ''sad'', ''calm'']"] ne
  obtain label where l: "aggregate_vocal_emotions [''calm'', ''sad'', ''sad'', ''calm''] = Inr label"
    and first: "\<forall>other \<in> set [''calm'', ''sad'', ''sad'', ''calm''].
      count_list [''calm'', ''sad'', ''sad'', ''calm''] other =
        count_list [''calm'', ''sad'', ''sad'', ''calm''] label \<longrightarrow>
      first_seen [''calm'', ''sad'', ''sad'', ''calm''] label \<le>
        first_seen [''calm'', ''sad'', ''sad'', ''calm''] other"
    by blast
  have "label = ''calm''" using l res by simp
  then show ?thesis using ne res tie first sad by blast
qed

section \<open>Invalid heart-rate input\<close>

lemma discover_column_code:
  "discover_column df =
     (if ''heart_rate'' \<in> set (columns df) then Some ''heart_rate''
      else find (\<lambda>col. py_in ''heart'' (lower col) \<or> py_in ''bpm'' (lower col)) (columns df))"
  by (simp add: discover_column_def is_substring_code)

lemma load_read_error: "read_csv p = Inl e \<Longrightarrow> load_heart_rate_data read_csv parse p = None"
  by (simp add: load_heart_rate_data_def load_body_def)

lemma load_no_column:
  "read_csv p = Inr df \<Longrightarrow> discover_column df = None \<Longrightarrow>
     load_heart_rate_data read_csv parse p = None"
  by (simp add: load_heart_rate_data_def load_body_def discover_column_code dropna_def
      split: if_splits)

lemma rows_setitem_map:
  "rows (setitem df name (map g (rows df))) = map (\<lambda>row. row(name := g row)) (rows df)"
  by (simp add: setitem_def zip_map2 zip_same_conv_map)

lemma clean_all_nan:
  assumes col: "''heart_rate'' \<in> set (columns d)"
    and nan: "\<forall>row \<in> set (rows d). isna (coerce parse (row ''heart_rate''))"
  shows "\<exists>d'. (case dropna d ''heart_rate'' of
                  Inl e \<Rightarrow> Inl e
                | Inr df \<Rightarrow>
                    (case getitem df ''heart_rate'' of
                       Inl e \<Rightarrow> Inl e
                     | Inr series \<Rightarrow>
                         dropna (setitem df ''heart_rate'' (to_numeric parse series))
                           ''heart_rate'')) = Inr d' \<and> rows d' = []"
proof -
  define d2 where "d2 = d\<lparr>rows := filter (\<lambda>row. \<not> isna (row ''heart_rate'')) (rows d)\<rparr>"
  define g where "g = (\<lambda>row :: string \<Rightarrow> cell. coerce parse (row ''heart_rate''))"
  define d3 where "d3 = setitem d2 ''heart_rate'' (map g (rows d2))"
  have drop1: "dropna d ''heart_rate'' = Inr d2"
    using col by (simp add: dropna_def d2_def)
  have col2: "''heart_rate'' \<in> set (columns d2)"
    using col by (simp add: d2_def)
  have get2: "getitem d2 ''heart_rate'' = Inr (map (\<lambda>row. row ''heart_rate'') (rows d2))"
    using col2 by (simp add: getitem_def)
  have num: "to_numeric parse (map (\<lambda>row. row ''heart_rate'') (rows d2)) = map g (rows d2)"
    by (simp add: to_numeric_def g_def)
  have col3: "''heart_rate'' \<in> set (columns d3)"
    using col2 by (simp add: d3_def setitem_def)
  have rows3: "rows d3 = map (\<lambda>row. row(''heart_rate'' := g row)) (rows d2)"
    unfolding d3_def by (rule rows_setitem_map)
  have "set (rows d2) \<subseteq> set (rows d)"
    by (auto simp: d2_def)
  then have "\<forall>row \<in> set (rows d3). isna (row ''heart_rate'')"
    using nan by (auto simp: rows3 g_def)
  then have empty: "filter (\<lambda>row. \<not> isna (row ''heart_rate'')) (rows d3) = []"
    by (simp add: filter_empty_conv)
  have drop3: "dropna d3 ''heart_rate'' = Inr (d3\<lparr>rows := []\<rparr>)"
    using col3 empty by (simp add: dropna_def)
  show ?thesis
    by (simp add: drop1 get2 num drop3 flip: d3_def)
qed

lemma find_in_set: "find P xs = Some x \<Longrightarrow> x \<in> set xs"
  by (auto simp: find_Some_iff)

lemma load_no_valid_rows:
  assumes read: "read_csv p = Inr df"
    and col: "discover_column df = Some col"
    and nan: "\<forall>row \<in> set (rows df). isna (coerce parse (row col))"
  shows "\<exists>d'. load_heart_rate_data read_csv parse p = Some d' \<and> rows d' = []"
proof (cases "''heart_rate'' \<in> set (columns df)")
  case True
  then have "col = ''heart_rate''"
    using col by (simp add: discover_column_code)
  then obtain d' where "(case dropna df ''heart_rate'' of
                  Inl e \<Rightarrow> Inl e
                | Inr df \<Rightarrow>
                    (case getitem df ''heart_rate'' of
                       Inl e \<Rightarrow> Inl e
                     | Inr series \<Rightarrow>
                         dropna (setitem df ''heart_rate'' (to_numeric parse series))
                           ''heart_rate'')) = Inr d'" and "rows d' = []"
    using clean_all_nan [OF True, of parse] nan by blast
  then show ?thesis
    using read True by (simp add: load_heart_rate_data_def load_body_def)
next
  case False
  then have found: "find (\<lambda>col. py_in ''heart'' (lower col) \<or> py_in ''bpm'' (lower col))
      (columns df) = Some col"
    using col by (simp add: discover_column_code)
  then have in_cols: "col \<in> set (columns df)"
    by (rule find_in_set)
  define d1 where "d1 = setitem df ''heart_rate'' (map (\<lambda>row. row col) (rows df))"
  have get: "getitem df col = Inr (map (\<lambda>row. row col) (rows df))"
    using in_cols by (simp add: getitem_def)
  have col1: "''heart_rate'' \<in> set (columns d1)"
    by (simp add: d1_def setitem_def)
  have rows1: "rows d1 = map (\<lambda>row. row(''heart_rate'' := row col)) (rows df)"
    unfolding d1_def by (rule rows_setitem_map)
  have nan1: "\<forall>row \<in> set (rows d1). isna (coerce parse (row ''heart_rate''))"
    using nan by (auto simp: rows1)
  obtain d' where "(case dropna d1 ''heart_rate'' of
                  Inl e \<Rightarrow> Inl e
                | Inr df \<Rightarrow>
                    (case getitem df ''heart_rate'' of
                       Inl e \<Rightarrow> Inl e
                     | Inr series \<Rightarrow>
                         dropna (setitem df ''heart_rate'' (to_numeric parse series))
                           ''heart_rate'')) = Inr d'" and "rows d' = []"
    using clean_all_nan [OF col1 nan1] by blast
  then show ?thesis
    using read False found get by (simp add: load_heart_rate_data_def load_body_def flip: d1_def)
qed

text \<open>
  Claim C9. When the file cannot be read (it is missing, or its rows cannot be parsed), when
  no heart-rate column is found by the exact name or by a name containing \<open>heart\<close> or
  \<open>bpm\<close>, and when no row has a number in that column after coercion, the analyzer
  returns an absent result: a value, not an exception.
\<close>

theorem analyze_invalid_input_absent:
  "(read_csv p = Inl e \<longrightarrow>
      analyze_cardiovascular_stress read_csv parse numpy_metrics format_1f p = Inr None) \<and>
   (read_csv p = Inr df \<and> discover_column df = None \<longrightarrow>
      analyze_cardiovascular_stress read_csv parse numpy_metrics format_1f p = Inr None) \<and>
   (read_csv p = Inr df \<and> discover_column df = Some col \<and>
    (\<forall>row \<in> set (rows df). isna (coerce parse (row col))) \<longrightarrow>
      analyze_cardiovascular_stress read_csv parse numpy_metrics format_1f p = Inr None)"
proof (intro conjI impI)
  assume "read_csv p = Inl e"
  then show "analyze_cardiovascular_stress read_csv parse numpy_metrics format_1f p = Inr None"
    by (simp add: analyze_cardiovascular_stress_def load_read_error)
next
  assume "read_csv p = Inr df \<and> discover_column df = None"
  then show "analyze_cardiovascular_stress read_csv parse numpy_metrics format_1f p = Inr None"
    by (simp add: analyze_cardiovascular_stress_def load_no_column)
next
  assume "read_csv p = Inr df \<and> discover_column df = Some col \<and>
    (\<forall>row \<in> set (rows df). isna (coerce parse (row col)))"
  then obtain d' where "load_heart_rate_data read_csv parse p = Some d'" and "rows d' = []"
    using load_no_valid_rows [of read_csv p df col parse] by blast
  then show "analyze_cardiovascular_stress read_csv parse numpy_metrics format_1f p = Inr None"
    by (simp add: analyze_cardiovascular_stress_def)
qed

theorem analyze_invalid_input_absent_witness:
  "read_csv_missing ''hr.csv'' = Inl FileNotFoundError \<and>
   analyze_cardiovascular_stress read_csv_missing parse_example numpy_example format_plain
     ''hr.csv'' = Inr None \<and>
   read_csv_steps ''hr.csv'' = Inr steps_frame \<and> discover_column steps_frame = None \<and>
   analyze_cardiovascular_stress read_csv_steps parse_example numpy_example format_plain
     ''hr.csv'' = Inr None \<and>
   read_csv_blank ''hr.csv'' = Inr blank_frame \<and>
   discover_column blank_frame = Some ''Heart Rate (BPM)'' \<and>
   isna (coerce parse_example (blank_row ''Heart Rate (BPM)'')) \<and>
   isna (coerce parse_example (text_row ''Heart Rate (BPM)'')) \<and>
   analyze_cardiovascular_stress read_csv_blank parse_example numpy_example format_plain
     ''hr.csv'' = Inr None"
proof -
  have m: "read_csv_missing ''hr.csv'' = Inl FileNotFoundError"
    by (simp add: read_csv_missing_def)
  have s: "read_csv_steps ''hr.csv'' = Inr steps_frame"
    by (simp add: read_csv_steps_def)
  have sc: "discover_column steps_frame = None"
    by (simp add: discover_column_code steps_frame_def lower_def lower_char_def)
  have b: "read_csv_blank ''hr.csv'' = Inr blank_frame"
    by (simp add: read_csv_blank_def)
  have bc: "discover_column blank_frame = Some ''Heart Rate (BPM)''"
    by (simp add: discover_column_code blank_frame_def lower_def lower_char_def)
  have n1: "isna (coerce parse_example (blank_row ''Heart Rate (BPM)''))"
    and n2: "isna (coerce parse_example (text_row ''Heart Rate (BPM)''))"
    by (simp_all add: isna_def coerce_def parse_example_def blank_row_def text_row_def)
  have all: "\<forall>row \<in> set (rows blank_frame). isna (coerce parse_example (row ''Heart Rate (BPM)''))"
    using n1 n2 by (simp add: blank_frame_def)
  note t = analyze_invalid_input_absent
  have r1: "analyze_cardiovascular_stress read_csv_missing parse_example numpy_example
      format_plain ''hr.csv'' = Inr None"
    using m t [of read_csv_missing "''hr.csv''" FileNotFoundError] by blast
  have r2: "analyze_cardiovascular_stress read_csv_steps parse_example numpy_example
      format_plain ''hr.csv'' = Inr None"
    using s sc t [of read_csv_steps "''hr.csv''" _ _ _ _ steps_frame] by blast
  have r3: "analyze_cardiovascular_stress read_csv_blank parse_example numpy_example
      format_plain ''hr.csv'' = Inr None"
    using b bc all
      t [of read_csv_blank "''hr.csv''" _ parse_example _ _ blank_frame "''Heart Rate (BPM)''"]
    by blast
  show ?thesis
    using m s sc b bc n1 n2 r1 r2 r3 by blast
qed

text \<open>Fewer than two samples give no metrics, whatever NumPy would compute.\<close>

lemma calculate_hrv_metrics_few:
  "length heart_rates < 2 \<Longrightarrow> calculate_hrv_metrics numpy_metrics heart_rates = Inr None"
  by (simp add: calculate_hrv_metrics_def)

text \<open>
  A table with two readings, one of them a text that reads as a number, and a row without
  a reading gives a result with two data points.
\<close>

lemma analyze_readings_present:
  "analyze_cardiovascular_stress read_csv_readings parse_example numpy_example format_plain
     ''hr.csv'' = Inr (Some (classify_stress format_plain example_metrics 2))"
  by (simp add: analyze_cardiovascular_stress_def load_heart_rate_data_def load_body_def
      read_csv_readings_def readings_frame_def lower_def lower_char_def getitem_def setitem_def
      dropna_def to_numeric_def coerce_def isna_def parse_example_def reading_72_def
      reading_75_def blank_row_def calculate_hrv_metrics_def is_str_def numpy_example_def
      numeral_2_eq_2)

end
